theory Spec2Isabelle
  imports Main "HOL-Library.Multiset"
begin

section \<open>Todo backend: data model\<close>

text \<open>
  A shallow embedding of the todo backend (\<^verbatim>\<open>app/models.py\<close>, \<^verbatim>\<open>app/schemas.py\<close>,
  \<^verbatim>\<open>app/main.py\<close>). A \<^verbatim>\<open>datetime\<close> is a point on a linear time axis, an integer.
  A Python \<^verbatim>\<open>str\<close> is a \<open>string\<close>, one \<open>char\<close> per code point (code points below 256).
\<close>

type_synonym datetime = int

text \<open>\<^verbatim>\<open>class Todo(Base)\<close> of \<^verbatim>\<open>models.py\<close>: one row of the table \<^verbatim>\<open>todos\<close>.
  The column \<^verbatim>\<open>id\<close> is the field \<open>id'\<close>.\<close>

record Todo =
  id' :: int
  title :: string
  description :: "string option"
  deadline :: "datetime option"
  completed :: bool
  created_at :: datetime
  updated_at :: datetime

text \<open>The table \<^verbatim>\<open>todos\<close>: its rows, in insertion order.\<close>

type_synonym table = "Todo list"

text \<open>\<^verbatim>\<open>class TodoCreate(BaseModel)\<close> and \<^verbatim>\<open>class TodoUpdate(BaseModel)\<close> of
  \<^verbatim>\<open>schemas.py\<close>, as the handlers receive them: \<open>None\<close> is Python's \<^verbatim>\<open>None\<close>.\<close>

record TodoCreate =
  c_title :: string
  c_description :: "string option"
  c_deadline :: "datetime option"

record TodoUpdate =
  u_title :: "string option"
  u_description :: "string option"
  u_deadline :: "datetime option"
  u_completed :: "bool option"

text \<open>A field of a JSON request body: the key is not in the body, or it is there with
  the value \<^verbatim>\<open>null\<close>, or with a value of the field's type.\<close>

datatype 'a json_field = Absent | JNull | JValue 'a

record create_body =
  cb_title :: "string json_field"
  cb_description :: "string json_field"
  cb_deadline :: "datetime json_field"

record update_body =
  ub_title :: "string json_field"
  ub_description :: "string json_field"
  ub_deadline :: "datetime json_field"
  ub_completed :: "bool json_field"

text \<open>The two failures a request ends in: \<^verbatim>\<open>raise HTTPException(status_code, detail)\<close>
  of a handler, and the validation failure of the framework (status 422) when the body
  or the query parameters do not fit the declared shape.\<close>

datatype error = HTTPException int string | RequestValidationError

fun status_code :: "error \<Rightarrow> int" where
  "status_code (HTTPException c d) = c"
| "status_code RequestValidationError = 422"

section \<open>Strings\<close>

text \<open>\<^verbatim>\<open>str.isspace\<close> on one code point below 256: tab, line feed, vertical tab, form
  feed, carriage return, the four separators 28 to 31, space, next line (133) and the
  no-break space (160).\<close>

definition isspace :: "char \<Rightarrow> bool" where
  "isspace c = ((of_char c :: nat) \<in> {9, 10, 11, 12, 13, 28, 29, 30, 31, 32, 133, 160})"

text \<open>\<^verbatim>\<open>str.strip()\<close>: drops the whitespace at both ends.\<close>

definition strip :: "string \<Rightarrow> string" where
  "strip s = rev (dropWhile isspace (rev (dropWhile isspace s)))"

text \<open>SQL \<^verbatim>\<open>lower()\<close> of SQLite: the letters A to Z become a to z, every other
  character stays.\<close>

definition lower_char :: "char \<Rightarrow> char" where
  "lower_char c =
     (if 65 \<le> (of_char c :: nat) \<and> (of_char c :: nat) \<le> 90
      then char_of ((of_char c :: nat) + 32) else c)"

definition lower :: "string \<Rightarrow> string" where
  "lower s = map lower_char s"

section \<open>The storage layer: values, ORDER BY, LIMIT and OFFSET\<close>

text \<open>A value of an ORDER BY term. SQLite orders NULL before every number and every
  number before every text; numbers by value; texts byte by byte, a proper prefix
  first.\<close>

datatype sqlval = SqlNull | SqlInt int | SqlText string

fun text_lt :: "string \<Rightarrow> string \<Rightarrow> bool" where
  "text_lt [] [] = False"
| "text_lt [] (y # ys) = True"
| "text_lt (x # xs) [] = False"
| "text_lt (x # xs) (y # ys) =
     ((of_char x :: nat) < of_char y \<or> (x = y \<and> text_lt xs ys))"

fun sql_lt :: "sqlval \<Rightarrow> sqlval \<Rightarrow> bool" where
  "sql_lt SqlNull SqlNull = False"
| "sql_lt SqlNull (SqlInt b) = True"
| "sql_lt SqlNull (SqlText b) = True"
| "sql_lt (SqlInt a) SqlNull = False"
| "sql_lt (SqlInt a) (SqlInt b) = (a < b)"
| "sql_lt (SqlInt a) (SqlText b) = True"
| "sql_lt (SqlText a) SqlNull = False"
| "sql_lt (SqlText a) (SqlInt b) = False"
| "sql_lt (SqlText a) (SqlText b) = text_lt a b"

text \<open>One term of an ORDER BY clause: \<^verbatim>\<open>asc(expr)\<close> or \<^verbatim>\<open>desc(expr)\<close> of SQLAlchemy,
  the expression a function of the row.\<close>

datatype order_term = asc "Todo \<Rightarrow> sqlval" | desc "Todo \<Rightarrow> sqlval"

text \<open>Row \<open>a\<close> may stand before row \<open>b\<close> under the ORDER BY terms: the first term on
  which they differ decides, in that term's direction; rows equal on every term may
  stand either way.\<close>

fun row_le :: "order_term list \<Rightarrow> Todo \<Rightarrow> Todo \<Rightarrow> bool" where
  "row_le [] a b = True"
| "row_le (asc k # ts) a b = (sql_lt (k a) (k b) \<or> (k a = k b \<and> row_le ts a b))"
| "row_le (desc k # ts) a b = (sql_lt (k b) (k a) \<or> (k a = k b \<and> row_le ts a b))"

text \<open>The engine's sort, as an insertion sort that keeps rows equal on every term in
  table order.\<close>

fun insert_row :: "order_term list \<Rightarrow> Todo \<Rightarrow> Todo list \<Rightarrow> Todo list" where
  "insert_row ts x [] = [x]"
| "insert_row ts x (y # ys) =
     (if row_le ts x y then x # y # ys else y # insert_row ts x ys)"

fun order_rows :: "order_term list \<Rightarrow> Todo list \<Rightarrow> Todo list" where
  "order_rows ts [] = []"
| "order_rows ts (x # xs) = insert_row ts x (order_rows ts xs)"

text \<open>A \<^verbatim>\<open>select(Todo)\<close> statement under construction: its ORDER BY terms, its LIMIT
  and its OFFSET.\<close>

record Select =
  order_by_terms :: "order_term list"
  limit_of :: "int option"
  offset_of :: "int option"

definition select_Todo :: Select where
  "select_Todo = \<lparr>order_by_terms = [], limit_of = None, offset_of = None\<rparr>"

text \<open>The methods \<^verbatim>\<open>stmt.order_by(...)\<close>, \<^verbatim>\<open>stmt.limit(n)\<close> and \<^verbatim>\<open>stmt.offset(n)\<close>.\<close>

definition stmt_order_by :: "Select \<Rightarrow> order_term list \<Rightarrow> Select" where
  "stmt_order_by stmt ts = stmt\<lparr>order_by_terms := order_by_terms stmt @ ts\<rparr>"

definition stmt_limit :: "Select \<Rightarrow> int \<Rightarrow> Select" where
  "stmt_limit stmt n = stmt\<lparr>limit_of := Some n\<rparr>"

definition stmt_offset :: "Select \<Rightarrow> int \<Rightarrow> Select" where
  "stmt_offset stmt n = stmt\<lparr>offset_of := Some n\<rparr>"

text \<open>SQLite's OFFSET skips nothing when it is negative; its LIMIT bounds nothing when
  it is negative.\<close>

definition sql_offset :: "int option \<Rightarrow> Todo list \<Rightarrow> Todo list" where
  "sql_offset n rows = (case n of None \<Rightarrow> rows | Some k \<Rightarrow> drop (nat k) rows)"

definition sql_limit :: "int option \<Rightarrow> Todo list \<Rightarrow> Todo list" where
  "sql_limit n rows =
     (case n of None \<Rightarrow> rows | Some k \<Rightarrow> if k < 0 then rows else take (nat k) rows)"

text \<open>\<^verbatim>\<open>db.execute(stmt).scalars().all()\<close>: order, then skip, then bound.\<close>

definition execute :: "table \<Rightarrow> Select \<Rightarrow> Todo list" where
  "execute db stmt =
     sql_limit (limit_of stmt) (sql_offset (offset_of stmt) (order_rows (order_by_terms stmt) db))"

text \<open>\<^verbatim>\<open>db.get(Todo, todo_id)\<close>: the row with that primary key, if there is one.\<close>

definition db_get :: "table \<Rightarrow> int \<Rightarrow> Todo option" where
  "db_get db todo_id = find (\<lambda>r. id' r = todo_id) db"

text \<open>The id SQLite gives a new row: one more than the largest id in the table, 1 in
  an empty table (the ids this application stores are positive).\<close>

definition next_id :: "table \<Rightarrow> int" where
  "next_id db = foldr max (map id' db) 0 + 1"

text \<open>\<^verbatim>\<open>db.add(todo); db.commit()\<close> of a new object, of a loaded object that was
  changed, and \<^verbatim>\<open>db.delete(todo); db.commit()\<close>.\<close>

definition db_insert :: "table \<Rightarrow> Todo \<Rightarrow> table" where
  "db_insert db todo = db @ [todo]"

definition db_update :: "table \<Rightarrow> Todo \<Rightarrow> table" where
  "db_update db todo = map (\<lambda>r. if id' r = id' todo then todo else r) db"

definition db_delete :: "table \<Rightarrow> Todo \<Rightarrow> table" where
  "db_delete db todo = filter (\<lambda>r. id' r \<noteq> id' todo) db"

section \<open>Request validation (\<^verbatim>\<open>schemas.py\<close> and the \<^verbatim>\<open>Query\<close> declarations)\<close>

text \<open>A field declared \<^verbatim>\<open>T | None = None\<close>: a missing key takes the default
  \<^verbatim>\<open>None\<close>, and \<^verbatim>\<open>null\<close> is \<^verbatim>\<open>None\<close> as well.\<close>

fun field_or_None :: "'a json_field \<Rightarrow> 'a option" where
  "field_or_None Absent = None"
| "field_or_None JNull = None"
| "field_or_None (JValue v) = Some v"

text \<open>\<^verbatim>\<open>TodoCreate\<close>: \<^verbatim>\<open>title: str = Field(min_length=1, max_length=200)\<close> is
  required and not nullable, and its length is that of the string as sent.\<close>

definition validate_TodoCreate :: "create_body \<Rightarrow> error + TodoCreate" where
  "validate_TodoCreate body =
     (case cb_title body of
        JValue t \<Rightarrow>
          if 1 \<le> length t \<and> length t \<le> 200
          then Inr \<lparr>c_title = t,
                    c_description = field_or_None (cb_description body),
                    c_deadline = field_or_None (cb_deadline body)\<rparr>
          else Inl RequestValidationError
      | Absent \<Rightarrow> Inl RequestValidationError
      | JNull \<Rightarrow> Inl RequestValidationError)"

text \<open>\<^verbatim>\<open>TodoUpdate\<close>:
  \<^verbatim>\<open>title: str | None = Field(default=None, min_length=1, max_length=200)\<close>; the
  length bounds apply to a string, not to \<^verbatim>\<open>None\<close>.\<close>

definition validate_TodoUpdate :: "update_body \<Rightarrow> error + TodoUpdate" where
  "validate_TodoUpdate body =
     (let ok = (case ub_title body of
                  JValue t \<Rightarrow> 1 \<le> length t \<and> length t \<le> 200
                | Absent \<Rightarrow> True
                | JNull \<Rightarrow> True)
      in if ok
         then Inr \<lparr>u_title = field_or_None (ub_title body),
                   u_description = field_or_None (ub_description body),
                   u_deadline = field_or_None (ub_deadline body),
                   u_completed = field_or_None (ub_completed body)\<rparr>
         else Inl RequestValidationError)"

text \<open>The query parameters of \<^verbatim>\<open>list_todos\<close>, each with its default and its
  constraint: the anchored patterns \<^verbatim>\<open>^(deadline|created_at|title)$\<close> and
  \<^verbatim>\<open>^(asc|desc)$\<close>, \<^verbatim>\<open>ge=1, le=200\<close> and \<^verbatim>\<open>ge=0\<close>.\<close>

definition validate_query ::
  "string option \<Rightarrow> string option \<Rightarrow> int option \<Rightarrow> int option
     \<Rightarrow> error + (string \<times> string \<times> int \<times> int)" where
  "validate_query sort_by order limit offset =
     (let sort_by = (case sort_by of None \<Rightarrow> ''deadline'' | Some s \<Rightarrow> s);
          order = (case order of None \<Rightarrow> ''asc'' | Some s \<Rightarrow> s);
          limit = (case limit of None \<Rightarrow> 50 | Some n \<Rightarrow> n);
          offset = (case offset of None \<Rightarrow> 0 | Some n \<Rightarrow> n)
      in if (sort_by = ''deadline'' \<or> sort_by = ''created_at'' \<or> sort_by = ''title'')
            \<and> (order = ''asc'' \<or> order = ''desc'')
            \<and> 1 \<le> limit \<and> limit \<le> 200
            \<and> 0 \<le> offset
         then Inr (sort_by, order, limit, offset)
         else Inl RequestValidationError)"

section \<open>The handlers of \<^verbatim>\<open>main.py\<close>\<close>

text \<open>The column expressions of \<^verbatim>\<open>apply_sort\<close>: \<^verbatim>\<open>Todo.id\<close>, \<^verbatim>\<open>Todo.created_at\<close>,
  \<^verbatim>\<open>func.lower(Todo.title)\<close>, \<^verbatim>\<open>Todo.deadline\<close> and
  \<^verbatim>\<open>case((Todo.deadline.is_(None), 1), else_=0)\<close>.\<close>

definition Todo_id :: "Todo \<Rightarrow> sqlval" where
  "Todo_id t = SqlInt (id' t)"

definition Todo_created_at :: "Todo \<Rightarrow> sqlval" where
  "Todo_created_at t = SqlInt (created_at t)"

definition lower_Todo_title :: "Todo \<Rightarrow> sqlval" where
  "lower_Todo_title t = SqlText (lower (title t))"

definition Todo_deadline :: "Todo \<Rightarrow> sqlval" where
  "Todo_deadline t = (case deadline t of None \<Rightarrow> SqlNull | Some d \<Rightarrow> SqlInt d)"

definition nulls_last_flag :: "Todo \<Rightarrow> sqlval" where
  "nulls_last_flag t = (case deadline t of None \<Rightarrow> SqlInt 1 | Some d \<Rightarrow> SqlInt 0)"

definition apply_sort :: "Select \<Rightarrow> string \<Rightarrow> string \<Rightarrow> Select" where
  "apply_sort stmt sort_by order =
     (let order_fn = (if order = ''asc'' then asc else desc)
      in if sort_by = ''created_at''
         then stmt_order_by stmt [order_fn Todo_created_at, order_fn Todo_id]
         else if sort_by = ''title''
         then stmt_order_by stmt [order_fn lower_Todo_title, order_fn Todo_id]
         else stmt_order_by stmt
                [order_fn nulls_last_flag, order_fn Todo_deadline, order_fn Todo_id])"

text \<open>Every handler takes the table and returns it with its result; \<open>now\<close> is the
  reading of \<^verbatim>\<open>datetime.utcnow()\<close>.\<close>

definition create_todo :: "TodoCreate \<Rightarrow> datetime \<Rightarrow> table \<Rightarrow> Todo \<times> table" where
  "create_todo payload now db =
     (let todo = \<lparr>id' = next_id db,
                  title = strip (c_title payload),
                  description = c_description payload,
                  deadline = c_deadline payload,
                  completed = False,
                  created_at = now,
                  updated_at = now\<rparr>
      in (todo, db_insert db todo))"

definition list_todos :: "table \<Rightarrow> string \<Rightarrow> string \<Rightarrow> int \<Rightarrow> int \<Rightarrow> Todo list" where
  "list_todos db sort_by order limit offset =
     (let stmt = select_Todo;
          stmt = apply_sort stmt sort_by order;
          stmt = stmt_offset (stmt_limit stmt limit) offset
      in execute db stmt)"



definition update_todo ::
  "int \<Rightarrow> TodoUpdate \<Rightarrow> datetime \<Rightarrow> table \<Rightarrow> (error + Todo) \<times> table" where
  "update_todo todo_id payload now db =
     (case db_get db todo_id of
        None \<Rightarrow> (Inl (HTTPException 404 ''Todo not found''), db)
      | Some todo \<Rightarrow>
          (let todo = (case u_title payload of
                         Some t \<Rightarrow> todo\<lparr>title := strip t\<rparr>
                       | None \<Rightarrow> todo);
               todo = (case u_description payload of
                         Some d \<Rightarrow> todo\<lparr>description := Some d\<rparr>
                       | None \<Rightarrow> todo);
               todo = (if u_deadline payload \<noteq> None \<or> u_deadline payload = None
                       then todo\<lparr>deadline := u_deadline payload\<rparr>
                       else todo);
               todo = (case u_completed payload of
                         Some c \<Rightarrow> todo\<lparr>completed := c\<rparr>
                       | None \<Rightarrow> todo);
               todo = todo\<lparr>updated_at := now\<rparr>
           in (Inr todo, db_update db todo)))"

definition delete_todo :: "int \<Rightarrow> table \<Rightarrow> (error + unit) \<times> table" where
  "delete_todo todo_id db =
     (case db_get db todo_id of
        None \<Rightarrow> (Inl (HTTPException 404 ''Todo not found''), db)
      | Some todo \<Rightarrow> (Inr (), db_delete db todo))"

section \<open>The routes: validation, then the handler\<close>

text \<open>A request that fails validation never reaches its handler, and the table stays
  as it is.\<close>

definition POST_todos :: "create_body \<Rightarrow> datetime \<Rightarrow> table \<Rightarrow> (error + Todo) \<times> table" where
  "POST_todos body now db =
     (case validate_TodoCreate body of
        Inl e \<Rightarrow> (Inl e, db)
      | Inr payload \<Rightarrow> (case create_todo payload now db of (todo, db') \<Rightarrow> (Inr todo, db')))"

definition GET_todos ::
  "string option \<Rightarrow> string option \<Rightarrow> int option \<Rightarrow> int option \<Rightarrow> table
     \<Rightarrow> (error + Todo list) \<times> table" where
  "GET_todos sort_by order limit offset db =
     (case validate_query sort_by order limit offset of
        Inl e \<Rightarrow> (Inl e, db)
      | Inr (sort_by, order, limit, offset) \<Rightarrow>
          (Inr (list_todos db sort_by order limit offset), db))"


definition PUT_todos_id ::
  "int \<Rightarrow> update_body \<Rightarrow> datetime \<Rightarrow> table \<Rightarrow> (error + Todo) \<times> table" where
  "PUT_todos_id todo_id body now db =
     (case validate_TodoUpdate body of
        Inl e \<Rightarrow> (Inl e, db)
      | Inr payload \<Rightarrow> update_todo todo_id payload now db)"


section \<open>Sample data\<close>

text \<open>Three rows and a table of them; two of them were created at the same time, one
  has no deadline, and the titles differ in case.\<close>

definition sample_1 :: Todo where
  "sample_1 = \<lparr>id' = 1, title = ''banana'', description = Some ''yellow'', deadline = Some 5,
                completed = False, created_at = 10, updated_at = 10\<rparr>"

definition sample_2 :: Todo where
  "sample_2 = \<lparr>id' = 2, title = ''Apple'', description = None, deadline = None,
                completed = False, created_at = 11, updated_at = 11\<rparr>"

definition sample_3 :: Todo where
  "sample_3 = \<lparr>id' = 3, title = ''cherry'', description = None, deadline = Some 3,
                completed = False, created_at = 11, updated_at = 12\<rparr>"

definition sample_db :: table where
  "sample_db = [sample_1, sample_2, sample_3]"

text \<open>Request bodies: \<^verbatim>\<open>{"completed": true}\<close>, \<^verbatim>\<open>{"deadline": null}\<close>,
  \<^verbatim>\<open>{"title": "  Buy milk  "}\<close> and \<^verbatim>\<open>{"title": "   "}\<close>.\<close>

definition completed_only :: update_body where
  "completed_only = \<lparr>ub_title = Absent, ub_description = Absent, ub_deadline = Absent,
                      ub_completed = JValue True\<rparr>"

definition null_deadline :: update_body where
  "null_deadline = \<lparr>ub_title = Absent, ub_description = Absent, ub_deadline = JNull,
                     ub_completed = Absent\<rparr>"


definition blank_title :: create_body where
  "blank_title = \<lparr>cb_title = JValue ''   '', cb_description = Absent, cb_deadline = Absent\<rparr>"


section \<open>The order of the rows\<close>

text \<open>The comparison of texts and of values is a strict linear order, so the rows
  may always be put in the order the ORDER BY terms ask for.\<close>

lemma text_lt_irrefl: "\<not> text_lt a a"
  by (induction a) auto

lemma text_lt_trans: "text_lt a b \<Longrightarrow> text_lt b c \<Longrightarrow> text_lt a c"
proof (induction a b arbitrary: c rule: text_lt.induct)
  case (2 y ys)
  then show ?case by (cases c) auto
next
  case (4 x xs y ys)
  then show ?case by (cases c) auto
qed auto

lemma text_lt_total: "a \<noteq> b \<Longrightarrow> text_lt a b \<or> text_lt b a"
proof (induction a b rule: text_lt.induct)
  case (4 x xs y ys)
  show ?case
  proof (cases "x = y")
    case True
    with 4 show ?thesis by auto
  next
    case False
    then have "(of_char x :: nat) \<noteq> of_char y" by simp
    then have "(of_char x :: nat) < of_char y \<or> (of_char y :: nat) < of_char x"
      by (rule linorder_neqE) (rule disjI1, assumption, rule disjI2, assumption)
    then show ?thesis by auto
  qed
qed auto

lemma sql_lt_irrefl: "\<not> sql_lt a a"
  by (cases a) (auto simp: text_lt_irrefl)

lemma sql_lt_trans: "sql_lt a b \<Longrightarrow> sql_lt b c \<Longrightarrow> sql_lt a c"
  by (cases a; cases b; cases c) (auto intro: text_lt_trans)

lemma sql_lt_total: "a \<noteq> b \<Longrightarrow> sql_lt a b \<or> sql_lt b a"
  by (cases a; cases b) (auto dest: text_lt_total)

lemma row_le_total: "row_le ts a b \<or> row_le ts b a"
proof (induction ts)
  case Nil
  show ?case by simp
next
  case (Cons t ts)
  show ?case
  proof (cases t)
    case (asc k)
    show ?thesis
    proof (cases "k a = k b")
      case True
      with asc Cons show ?thesis by auto
    next
      case False
      with asc sql_lt_total [of "k a" "k b"] show ?thesis by auto
    qed
  next
    case (desc k)
    show ?thesis
    proof (cases "k a = k b")
      case True
      with desc Cons show ?thesis by auto
    next
      case False
      with desc sql_lt_total [of "k a" "k b"] show ?thesis by auto
    qed
  qed
qed

lemma row_le_trans: "row_le ts a b \<Longrightarrow> row_le ts b c \<Longrightarrow> row_le ts a c"
proof (induction ts)
  case Nil
  show ?case by simp
next
  case (Cons t ts)
  show ?case
  proof (cases t)
    case (asc k)
    with Cons show ?thesis by (auto intro: sql_lt_trans)
  next
    case (desc k)
    with Cons show ?thesis by (auto intro: sql_lt_trans)
  qed
qed

lemma set_insert_row: "set (insert_row ts x xs) = insert x (set xs)"
  by (induction xs) auto


lemma sorted_insert_row:
  "sorted_wrt (row_le ts) xs \<Longrightarrow> sorted_wrt (row_le ts) (insert_row ts x xs)"
proof (induction xs)
  case Nil
  show ?case by simp
next
  case (Cons y ys)
  show ?case
  proof (cases "row_le ts x y")
    case True
    with Cons.prems show ?thesis by (auto intro: row_le_trans)
  next
    case False
    then have "row_le ts y x" using row_le_total [of ts x y] by simp
    with False Cons show ?thesis by (auto simp: set_insert_row)
  qed
qed


lemma sorted_order_rows: "sorted_wrt (row_le ts) (order_rows ts xs)"
  by (induction xs) (auto simp: sorted_insert_row)

section \<open>The listing\<close>

lemma list_todos_execute:
  "list_todos db sort_by order limit offset =
     sql_limit (Some limit) (sql_offset (Some offset)
       (order_rows (order_by_terms (apply_sort select_Todo sort_by order)) db))"
  by (simp add: list_todos_def execute_def stmt_limit_def stmt_offset_def)

lemma sorted_wrt_page:
  "sorted_wrt P xs \<Longrightarrow> sorted_wrt P (sql_limit l (sql_offset k xs))"
  by (auto simp: sql_limit_def sql_offset_def sorted_wrt_take sorted_wrt_drop
       split: option.splits)

lemma sorted_list_todos:
  "sorted_wrt (row_le (order_by_terms (apply_sort select_Todo sort_by order)))
     (list_todos db sort_by order limit offset)"
  unfolding list_todos_execute by (rule sorted_wrt_page) (rule sorted_order_rows)





lemma terms_deadline_asc:
  "order_by_terms (apply_sort select_Todo ''deadline'' ''asc'') =
     [asc nulls_last_flag, asc Todo_deadline, asc Todo_id]"
  by (simp add: apply_sort_def stmt_order_by_def select_Todo_def)

lemma terms_deadline_desc:
  "order_by_terms (apply_sort select_Todo ''deadline'' ''desc'') =
     [desc nulls_last_flag, desc Todo_deadline, desc Todo_id]"
  by (simp add: apply_sort_def stmt_order_by_def select_Todo_def)


section \<open>Claims about the listing order\<close>











text \<open>The deadline order as the code has it: ascending, the rows without a deadline
  come after the rows with one; descending, they come before them.\<close>

lemma list_todos_deadline_asc_nulls_last:
  "sorted_wrt (\<lambda>a b. deadline a = None \<longrightarrow> deadline b = None)
     (list_todos db ''deadline'' ''asc'' limit offset)"
proof -
  have "sorted_wrt (row_le [asc nulls_last_flag, asc Todo_deadline, asc Todo_id])
     (list_todos db ''deadline'' ''asc'' limit offset)"
    using sorted_list_todos [of "''deadline''" "''asc''" db limit offset]
    by (simp only: terms_deadline_asc)
  then show ?thesis
  proof (rule sorted_wrt_mono_rel [rotated])
    fix a b
    assume "row_le [asc nulls_last_flag, asc Todo_deadline, asc Todo_id] a b"
    then show "deadline a = None \<longrightarrow> deadline b = None"
      by (auto simp: nulls_last_flag_def Todo_deadline_def split: option.splits)
  qed
qed

lemma list_todos_deadline_desc_nulls_first:
  "sorted_wrt (\<lambda>a b. deadline b = None \<longrightarrow> deadline a = None)
     (list_todos db ''deadline'' ''desc'' limit offset)"
proof -
  have "sorted_wrt (row_le [desc nulls_last_flag, desc Todo_deadline, desc Todo_id])
     (list_todos db ''deadline'' ''desc'' limit offset)"
    using sorted_list_todos [of "''deadline''" "''desc''" db limit offset]
    by (simp only: terms_deadline_desc)
  then show ?thesis
  proof (rule sorted_wrt_mono_rel [rotated])
    fix a b
    assume "row_le [desc nulls_last_flag, desc Todo_deadline, desc Todo_id] a b"
    then show "deadline b = None \<longrightarrow> deadline a = None"
      by (auto simp: nulls_last_flag_def Todo_deadline_def split: option.splits)
  qed
qed

text \<open>
  Claim C3 asks that with \<^verbatim>\<open>sort_by=deadline\<close> every row without a deadline comes after
  every row with one, in both directions; the comment in \<^verbatim>\<open>apply_sort\<close> says the same
  (NULL deadlines should go last). The code hands the flag to \<^verbatim>\<open>order_fn\<close> as well, so
  with \<^verbatim>\<open>order=desc\<close> the flag sorts descending: on a table of a row with the deadline
  5 and a row without a deadline, the row without a deadline is listed first.
\<close>

theorem list_todos_deadline_desc_null_first:
  "list_todos [sample_1, sample_2] ''deadline'' ''desc'' 50 0 = [sample_2, sample_1]
   \<and> deadline sample_2 = None \<and> deadline sample_1 = Some 5"
  by (simp add: list_todos_execute terms_deadline_desc sql_limit_def sql_offset_def
        sample_1_def sample_2_def nulls_last_flag_def Todo_deadline_def Todo_id_def)

section \<open>Claims about the query parameters\<close>

lemma validate_query_defaults:
  "validate_query None order limit offset = validate_query (Some ''deadline'') order limit offset"
  "validate_query sort_by None limit offset = validate_query sort_by (Some ''asc'') limit offset"
  "validate_query sort_by order None offset = validate_query sort_by order (Some 50) offset"
  "validate_query sort_by order limit None = validate_query sort_by order limit (Some 0)"
  by (simp_all add: validate_query_def)

text \<open>
  Claim C8. \<^verbatim>\<open>GET /todos\<close> answers with a validation error (status 422), whatever the
  table holds and leaving it as it is, when \<^verbatim>\<open>sort_by\<close> is given and is none of
  \<^verbatim>\<open>deadline\<close>, \<^verbatim>\<open>created_at\<close>, \<^verbatim>\<open>title\<close>, when \<^verbatim>\<open>order\<close> is given and is neither
  \<^verbatim>\<open>asc\<close> nor \<^verbatim>\<open>desc\<close>, when \<^verbatim>\<open>limit\<close> is given outside 1..200, or when \<^verbatim>\<open>offset\<close>
  is given and negative. Parameters within these bounds reach \<^verbatim>\<open>list_todos\<close> as they
  are. A parameter that is left out takes its default: \<^verbatim>\<open>sort_by=deadline\<close>,
  \<^verbatim>\<open>order=asc\<close>, \<^verbatim>\<open>limit=50\<close>, \<^verbatim>\<open>offset=0\<close>.
\<close>

theorem GET_todos_validation:
  "((\<exists>s. sort_by = Some s \<and> s \<noteq> ''deadline'' \<and> s \<noteq> ''created_at'' \<and> s \<noteq> ''title'')
      \<or> (\<exists>s. order = Some s \<and> s \<noteq> ''asc'' \<and> s \<noteq> ''desc'')
      \<or> (\<exists>n. limit = Some n \<and> (n < 1 \<or> 200 < n))
      \<or> (\<exists>n. offset = Some n \<and> n < 0)
    \<longrightarrow> GET_todos sort_by order limit offset db = (Inl RequestValidationError, db))
   \<and> status_code RequestValidationError = 422
   \<and> ((s = ''deadline'' \<or> s = ''created_at'' \<or> s = ''title'') \<and> (d = ''asc'' \<or> d = ''desc'')
        \<and> 1 \<le> n \<and> n \<le> 200 \<and> 0 \<le> k
      \<longrightarrow> GET_todos (Some s) (Some d) (Some n) (Some k) db = (Inr (list_todos db s d n k), db))
   \<and> GET_todos None None None None db = (Inr (list_todos db ''deadline'' ''asc'' 50 0), db)
   \<and> GET_todos None order limit offset db = GET_todos (Some ''deadline'') order limit offset db
   \<and> GET_todos sort_by None limit offset db = GET_todos sort_by (Some ''asc'') limit offset db
   \<and> GET_todos sort_by order None offset db = GET_todos sort_by order (Some 50) offset db
   \<and> GET_todos sort_by order limit None db = GET_todos sort_by order limit (Some 0) db"
proof -
  have reject: "GET_todos sort_by order limit offset db = (Inl RequestValidationError, db)"
    if "(\<exists>s. sort_by = Some s \<and> s \<noteq> ''deadline'' \<and> s \<noteq> ''created_at'' \<and> s \<noteq> ''title'')
      \<or> (\<exists>s. order = Some s \<and> s \<noteq> ''asc'' \<and> s \<noteq> ''desc'')
      \<or> (\<exists>n. limit = Some n \<and> (n < 1 \<or> 200 < n))
      \<or> (\<exists>n. offset = Some n \<and> n < 0)"
    using that by (auto simp: GET_todos_def validate_query_def)
  have accept: "GET_todos (Some s) (Some d) (Some n) (Some k) db
       = (Inr (list_todos db s d n k), db)"
    if "(s = ''deadline'' \<or> s = ''created_at'' \<or> s = ''title'') \<and> (d = ''asc'' \<or> d = ''desc'')
        \<and> 1 \<le> n \<and> n \<le> 200 \<and> 0 \<le> k"
    using that by (auto simp: GET_todos_def validate_query_def)
  have dflt: "GET_todos None None None None db
       = (Inr (list_todos db ''deadline'' ''asc'' 50 0), db)"
    by (simp add: GET_todos_def validate_query_def)
  have each: "GET_todos None order limit offset db = GET_todos (Some ''deadline'') order limit offset db"
    "GET_todos sort_by None limit offset db = GET_todos sort_by (Some ''asc'') limit offset db"
    "GET_todos sort_by order None offset db = GET_todos sort_by order (Some 50) offset db"
    "GET_todos sort_by order limit None db = GET_todos sort_by order limit (Some 0) db"
    unfolding GET_todos_def by (simp_all only: validate_query_defaults)
  from reject accept dflt each show ?thesis by simp
qed

theorem GET_todos_validation_witness:
  "GET_todos (Some ''priority'') None None None sample_db = (Inl RequestValidationError, sample_db)
   \<and> GET_todos None (Some ''up'') None None sample_db = (Inl RequestValidationError, sample_db)
   \<and> GET_todos None None (Some 201) None sample_db = (Inl RequestValidationError, sample_db)
   \<and> GET_todos None None (Some 0) None sample_db = (Inl RequestValidationError, sample_db)
   \<and> GET_todos None None None (Some (- 1)) sample_db = (Inl RequestValidationError, sample_db)
   \<and> GET_todos (Some ''title'') (Some ''desc'') (Some 200) (Some 0) sample_db
        = (Inr (list_todos sample_db ''title'' ''desc'' 200 0), sample_db)"
  using GET_todos_validation [of "Some ''priority''" None None None sample_db]
    GET_todos_validation [of None "Some ''up''" None None sample_db]
    GET_todos_validation [of None None "Some 201" None sample_db]
    GET_todos_validation [of None None "Some 0" None sample_db]
    GET_todos_validation [of None None None "Some (- 1)" sample_db]
    GET_todos_validation [of None None None None sample_db "''title''" "''desc''" 200 0]
  by simp

section \<open>Claims about fetching, updating and deleting\<close>

lemma db_get_None: "db_get db todo_id = None \<longleftrightarrow> todo_id \<notin> set (map id' db)"
  by (auto simp: db_get_def find_None_iff)

lemma db_get_Some_id: "db_get db todo_id = Some todo \<Longrightarrow> id' todo = todo_id"
  by (auto simp: db_get_def find_Some_iff)

lemma db_get_Some_mem: "db_get db todo_id = Some todo \<Longrightarrow> todo \<in> set db"
  by (auto simp: db_get_def find_Some_iff)

lemma db_get_db_update:
  "db_get db todo_id = Some todo \<Longrightarrow> id' todo' = todo_id \<Longrightarrow>
   db_get (db_update db todo') todo_id = Some todo'"
  unfolding db_get_def db_update_def
  by (induction db) (auto split: if_splits)

lemma db_get_db_update_other:
  "i \<noteq> id' todo' \<Longrightarrow> db_get (db_update db todo') i = db_get db i"
  unfolding db_get_def db_update_def
  by (induction db) auto

lemma update_todo_found:
  "db_get db todo_id = Some todo \<Longrightarrow>
   update_todo todo_id payload now db =
     (let todo' = todo\<lparr>title := (case u_title payload of Some t \<Rightarrow> strip t | None \<Rightarrow> title todo),
                       description := (case u_description payload of Some d \<Rightarrow> Some d
                                       | None \<Rightarrow> description todo),
                       deadline := u_deadline payload,
                       completed := (case u_completed payload of Some c \<Rightarrow> c
                                     | None \<Rightarrow> completed todo),
                       updated_at := now\<rparr>
      in (Inr todo', db_update db todo'))"
  by (simp add: update_todo_def Let_def del: not_None_eq split: option.splits)

lemma PUT_todos_id_found:
  assumes "db_get db todo_id = Some todo"
    and "validate_TodoUpdate body \<noteq> Inl RequestValidationError"
  shows "PUT_todos_id todo_id body now db =
     (let todo' = todo\<lparr>title := (case field_or_None (ub_title body) of
                                   Some t \<Rightarrow> strip t | None \<Rightarrow> title todo),
                       description := (case field_or_None (ub_description body) of
                                         Some d \<Rightarrow> Some d | None \<Rightarrow> description todo),
                       deadline := field_or_None (ub_deadline body),
                       completed := (case field_or_None (ub_completed body) of
                                       Some c \<Rightarrow> c | None \<Rightarrow> completed todo),
                       updated_at := now\<rparr>
      in (Inr todo', db_update db todo'))"
proof -
  have v: "validate_TodoUpdate body =
      Inr \<lparr>u_title = field_or_None (ub_title body),
           u_description = field_or_None (ub_description body),
           u_deadline = field_or_None (ub_deadline body),
           u_completed = field_or_None (ub_completed body)\<rparr>"
    using assms(2) by (auto simp: validate_TodoUpdate_def Let_def split: if_splits)
  show ?thesis
    using update_todo_found [OF assms(1)]
    by (simp add: PUT_todos_id_def v Let_def)
qed

lemma PUT_todos_id_stored:
  assumes "db_get db todo_id = Some todo"
    and "validate_TodoUpdate body \<noteq> Inl RequestValidationError"
  shows "\<exists>todo' db'. PUT_todos_id todo_id body now db = (Inr todo', db')
       \<and> db_get db' todo_id = Some todo'
       \<and> deadline todo' = field_or_None (ub_deadline body)
       \<and> updated_at todo' = now \<and> id' todo' = todo_id \<and> created_at todo' = created_at todo"
proof -
  have id: "id' todo = todo_id" using assms(1) by (rule db_get_Some_id)
  let ?t = "todo\<lparr>title := (case field_or_None (ub_title body) of
                                   Some t \<Rightarrow> strip t | None \<Rightarrow> title todo),
                       description := (case field_or_None (ub_description body) of
                                         Some d \<Rightarrow> Some d | None \<Rightarrow> description todo),
                       deadline := field_or_None (ub_deadline body),
                       completed := (case field_or_None (ub_completed body) of
                                       Some c \<Rightarrow> c | None \<Rightarrow> completed todo),
                       updated_at := now\<rparr>"
  have r: "PUT_todos_id todo_id body now db = (Inr ?t, db_update db ?t)"
    using PUT_todos_id_found [OF assms, of now] by (simp add: Let_def)
  have s: "db_get (db_update db ?t) todo_id = Some ?t"
    using assms(1) by (rule db_get_db_update) (simp add: id)
  have "deadline ?t = field_or_None (ub_deadline body) \<and> updated_at ?t = now
      \<and> id' ?t = todo_id \<and> created_at ?t = created_at todo"
    by (simp add: id)
  with r s show ?thesis by blast
qed

lemma sample_get_1: "db_get sample_db 1 = Some sample_1"
  by (simp add: db_get_def sample_db_def sample_1_def)

lemma completed_only_valid: "validate_TodoUpdate completed_only \<noteq> Inl RequestValidationError"
  by (simp add: validate_TodoUpdate_def completed_only_def)

lemma null_deadline_valid: "validate_TodoUpdate null_deadline \<noteq> Inl RequestValidationError"
  by (simp add: validate_TodoUpdate_def null_deadline_def)



text \<open>
  Claim C4. When the row exists and the body passes validation, \<^verbatim>\<open>PUT /todos/{id}\<close>
  succeeds, and the deadline of the returned row, which is the row then stored under the
  id, is the deadline of the body: a body without the key \<^verbatim>\<open>deadline\<close> and a body with
  \<^verbatim>\<open>"deadline": null\<close> both leave the stored deadline \<^verbatim>\<open>NULL\<close>, so leaving the key
  out clears a deadline that was set.
\<close>

theorem update_deadline_from_payload:
  assumes "db_get db todo_id = Some todo"
    and "validate_TodoUpdate body \<noteq> Inl RequestValidationError"
  shows "\<exists>todo' db'. PUT_todos_id todo_id body now db = (Inr todo', db')
       \<and> db_get db' todo_id = Some todo'
       \<and> deadline todo' = (case ub_deadline body of
                             Absent \<Rightarrow> None | JNull \<Rightarrow> None | JValue d \<Rightarrow> Some d)"
proof -
  obtain todo' db' where "PUT_todos_id todo_id body now db = (Inr todo', db')"
    and "db_get db' todo_id = Some todo'"
    and "deadline todo' = field_or_None (ub_deadline body)"
    using PUT_todos_id_stored [OF assms, of now] by blast
  moreover have "field_or_None (ub_deadline body) = (case ub_deadline body of
                             Absent \<Rightarrow> None | JNull \<Rightarrow> None | JValue d \<Rightarrow> Some d)"
    by (simp split: json_field.splits)
  ultimately show ?thesis by auto
qed

theorem update_deadline_from_payload_witness:
  "db_get sample_db 1 = Some sample_1
   \<and> deadline sample_1 = Some 5
   \<and> ub_deadline completed_only = Absent
   \<and> validate_TodoUpdate completed_only \<noteq> Inl RequestValidationError
   \<and> (\<exists>todo' db'. PUT_todos_id 1 completed_only 20 sample_db = (Inr todo', db')
        \<and> db_get db' 1 = Some todo' \<and> deadline todo' = None)"
proof -
  have a: "ub_deadline completed_only = Absent" by (simp add: completed_only_def)
  have b: "deadline sample_1 = Some 5" by (simp add: sample_1_def)
  from update_deadline_from_payload [OF sample_get_1 completed_only_valid, of 20]
  show ?thesis by (simp add: a b sample_get_1 completed_only_valid)
qed

text \<open>
  Claim C6. For a stored row whose deadline is set, \<^verbatim>\<open>PUT /todos/{id}\<close> with a body that
  passes validation and holds \<^verbatim>\<open>"deadline": null\<close> succeeds, and the row then stored
  under the id has no deadline.
\<close>

theorem update_null_deadline_clears:
  assumes "db_get db todo_id = Some todo"
    and "deadline todo = Some d"
    and "ub_deadline body = JNull"
    and "validate_TodoUpdate body \<noteq> Inl RequestValidationError"
  shows "\<exists>todo' db'. PUT_todos_id todo_id body now db = (Inr todo', db')
       \<and> db_get db' todo_id = Some todo'
       \<and> deadline todo' = None"
  using PUT_todos_id_stored [OF assms(1) assms(4), of now] assms(3) by auto

theorem update_null_deadline_clears_witness:
  "db_get sample_db 1 = Some sample_1
   \<and> deadline sample_1 = Some 5
   \<and> ub_deadline null_deadline = JNull
   \<and> validate_TodoUpdate null_deadline \<noteq> Inl RequestValidationError
   \<and> (\<exists>todo' db'. PUT_todos_id 1 null_deadline 20 sample_db = (Inr todo', db')
        \<and> db_get db' 1 = Some todo' \<and> deadline todo' = None)"
proof -
  have a: "ub_deadline null_deadline = JNull" by (simp add: null_deadline_def)
  have b: "deadline sample_1 = Some 5" by (simp add: sample_1_def)
  from update_null_deadline_clears [OF sample_get_1 b a null_deadline_valid, of 20]
  show ?thesis by (simp add: a b sample_get_1 null_deadline_valid)
qed

section \<open>Claims about creating\<close>







text \<open>A title that is empty as sent, or longer than 200 characters as sent, is
  rejected and nothing is stored.\<close>

lemma POST_todos_rejects_title_length:
  assumes "cb_title body = JValue t" and "length t = 0 \<or> 200 < length t"
  shows "POST_todos body now db = (Inl RequestValidationError, db)"
  using assms by (auto simp: POST_todos_def validate_TodoCreate_def)

text \<open>
  Claim C2 asks that a create request with an empty or a whitespace-only title fails
  validation and stores nothing. \<^verbatim>\<open>TodoCreate\<close> bounds the length of the title as
  sent (\<^verbatim>\<open>min_length=1\<close>), and \<^verbatim>\<open>create_todo\<close> strips it afterwards: the title of
  three spaces passes validation and a row with the empty title is stored.
\<close>

theorem create_blank_title_persisted:
  "POST_todos blank_title 7 []
     = (Inr \<lparr>id' = 1, title = '''', description = None, deadline = None,
              completed = False, created_at = 7, updated_at = 7\<rparr>,
        [\<lparr>id' = 1, title = '''', description = None, deadline = None,
              completed = False, created_at = 7, updated_at = 7\<rparr>])
   \<and> cb_title blank_title = JValue ''   ''
   \<and> strip ''   '' = ''''"
  by (simp add: POST_todos_def validate_TodoCreate_def blank_title_def create_todo_def
        db_insert_def next_id_def strip_def isspace_def Let_def)

section \<open>Claims about the fields an update leaves out\<close>

text \<open>The title, the description and the completion flag keep their stored values
  when the body leaves them out; \<^verbatim>\<open>id\<close> and \<^verbatim>\<open>created_at\<close> never change, and
  \<^verbatim>\<open>updated_at\<close> becomes the reading of the clock.\<close>

lemma PUT_todos_id_keeps_absent_fields:
  assumes "db_get db todo_id = Some todo"
    and "validate_TodoUpdate body \<noteq> Inl RequestValidationError"
  shows "\<exists>todo' db'. PUT_todos_id todo_id body now db = (Inr todo', db')
       \<and> (ub_title body = Absent \<longrightarrow> title todo' = title todo)
       \<and> (ub_description body = Absent \<longrightarrow> description todo' = description todo)
       \<and> (ub_completed body = Absent \<longrightarrow> completed todo' = completed todo)
       \<and> id' todo' = id' todo \<and> created_at todo' = created_at todo
       \<and> updated_at todo' = now"
  using PUT_todos_id_found [OF assms, of now] by (simp add: Let_def)

text \<open>
  Claim C1 asks that an update leaves every field that is not in the body as it is
  stored. \<^verbatim>\<open>update_todo\<close> guards the title, the description and the completion flag
  with \<^verbatim>\<open>is not None\<close>, but the guard of the deadline,
  \<^verbatim>\<open>payload.deadline is not None or payload.deadline is None\<close>, always holds: the body
  \<^verbatim>\<open>{"completed": true}\<close>, sent for a row with the deadline 5, stores the row without
  a deadline.
\<close>

theorem update_completed_only_clears_deadline:
  "PUT_todos_id 1 completed_only 20 [sample_1]
     = (Inr (sample_1\<lparr>deadline := None, completed := True, updated_at := 20\<rparr>),
        [sample_1\<lparr>deadline := None, completed := True, updated_at := 20\<rparr>])
   \<and> ub_deadline completed_only = Absent
   \<and> deadline sample_1 = Some 5"
  by (simp add: PUT_todos_id_def validate_TodoUpdate_def completed_only_def update_todo_def
        db_get_def db_update_def sample_1_def Let_def)

section \<open>Deleting\<close>

text \<open>After a successful delete the id is gone and every other row is as it was.\<close>

lemma delete_todo_removes:
  assumes "db_get db todo_id = Some todo"
  shows "\<exists>db'. delete_todo todo_id db = (Inr (), db')
       \<and> db_get db' todo_id = None
       \<and> (\<forall>i. i \<noteq> todo_id \<longrightarrow> db_get db' i = db_get db i)"
proof -
  have id: "id' todo = todo_id" using assms by (rule db_get_Some_id)
  have a: "db_get (db_delete db todo) todo_id = None"
    by (auto simp: db_get_None db_delete_def id)
  have b: "db_get (db_delete db todo) i = db_get db i" if "i \<noteq> todo_id" for i
    using that unfolding db_get_def db_delete_def id by (induction db) auto
  show ?thesis using a b by (simp add: delete_todo_def assms)
qed

end
